theory Spec2Isabelle
  imports Complex_Main "HOL-Library.List_Lexorder" "HOL-Library.Product_Lexorder"
begin

section \<open>Strings\<close>

text \<open>
  A Python \<open>str\<close> is a sequence of Unicode code points, and the program's literals are
  Cyrillic, so a string is the list of its code points: \<open>len\<close> is \<open>length\<close>, and
  PostgreSQL's \<open>CHAR_LENGTH\<close> counts the same thing. Each literal below is the code-point
  list of the literal at the source line named beside it.
\<close>

type_synonym pystr = "nat list"

fun startswith :: "pystr \<Rightarrow> pystr \<Rightarrow> bool" where
  "startswith [] s = True"
| "startswith (p # ps) [] = False"
| "startswith (p # ps) (c # cs) = (p = c \<and> startswith ps cs)"

text \<open>\<open>py_in sub s\<close> is Python's \<open>sub in s\<close> on strings.\<close>

fun py_in :: "pystr \<Rightarrow> pystr \<Rightarrow> bool" where
  "py_in sub [] = (sub = [])"
| "py_in sub (c # cs) = (startswith sub (c # cs) \<or> py_in sub cs)"

text \<open>The five achievement names of \<open>create_tables\<close> (lines 134 to 138).\<close>

definition name_first_step :: pystr where
  "name_first_step =
     [1055, 1077, 1088, 1074, 1099, 1081, 32, 1096, 1072, 1075]"

definition name_team_player :: pystr where
  "name_team_player =
     [1050, 1086, 1084, 1072, 1085, 1076, 1085, 1099, 1081, 32, 1080, 1075, 1088, 1086,
      1082]"

definition name_versatile :: pystr where
  "name_versatile =
     [1056, 1072, 1079, 1085, 1086, 1089, 1090, 1086, 1088, 1086, 1085, 1085, 1080, 1081]"

definition name_productive_year :: pystr where
  "name_productive_year =
     [1055, 1083, 1086, 1076, 1086, 1090, 1074, 1086, 1088, 1085, 1099, 1081, 32, 1075,
      1086, 1076]"

definition name_wordsmith :: pystr where
  "name_wordsmith =
     [1057, 1083, 1086, 1074, 1086, 1073, 1086, 1075]"

text \<open>Title and text of the unlock dialog (line 395).\<close>

definition title_achievement :: pystr where
  "title_achievement =
     [1044, 1086, 1089, 1090, 1080, 1078, 1077, 1085, 1080, 1077]"

definition text_unlocked :: pystr where
  "text_unlocked =
     [1055, 1086, 1083, 1091, 1095, 1077, 1085, 1086, 32, 1076, 1086, 1089, 1090, 1080,
      1078, 1077, 1085, 1080, 1077, 58, 32]"

section \<open>The store\<close>

text \<open>
  The tables of \<open>create_tables\<close>, each a list of rows. Column names are translated:
  \<open>e_title\<close> is \<open>nazvanie\<close>, \<open>e_type\<close> is \<open>tip\<close>, \<open>e_date\<close> is \<open>data\<close> (year, month, day),
  \<open>e_description\<close> is \<open>opisanie\<close> and \<open>e_coauthors\<close> is \<open>soavtory\<close>; the last two are
  nullable. The timestamp column of \<open>user_achievements\<close> is left out.
\<close>

record entry =
  e_id :: nat
  e_title :: pystr
  e_type :: pystr
  e_date :: "nat \<times> nat \<times> nat"
  e_description :: "pystr option"
  e_coauthors :: "pystr option"

record achievement =
  a_id :: nat
  a_name :: pystr
  a_description :: "pystr option"

record competency =
  c_id :: nat
  c_name :: pystr
  c_category :: pystr

record grade =
  gr_entry :: nat
  gr_competency :: nat
  gr_level :: int

record goal =
  g_id :: nat
  g_description :: pystr
  g_type :: pystr
  g_target :: int
  g_current :: int
  g_completed :: bool

text \<open>
  Every \<open>cursor.execute\<close> and \<open>conn.commit\<close> of the achievement evaluator is one
  \<open>sql_op\<close>; a persistence failure is a statement that raises.
\<close>

datatype sql_op =
    SelectCountEntries
  | SelectCountCoauthored
  | SelectCountTypes
  | SelectCountYear
  | SelectSumChars
  | SelectAchievementId pystr
  | SelectUserAchievement nat nat
  | InsertUserAchievement nat nat
  | Commit

text \<open>
  \<open>StoreError\<close> is the exception of a statement the store rejects; \<open>TypeError\<close> is what
  \<open>fetchone()[0]\<close> raises when \<open>fetchone()\<close> is \<open>None\<close>; \<open>InFailedSqlTransaction\<close> is
  what a statement raises on a connection whose transaction an earlier rejected statement
  has aborted.
\<close>

datatype error = StoreError sql_op | TypeError | InFailedSqlTransaction

datatype dialog = ShowInfo pystr pystr

text \<open>
  What the panels of the competency and goal tabs show, as data: the f-strings that
  render levels are formatting on top of these values.
\<close>

datatype competencies_panel =
    PanelEmpty
  | LoadFirst
  | Profile "(pystr \<times> pystr \<times> rat) list" "(pystr \<times> rat) list"

datatype goals_panel =
    NoGoalsYet
  | GoalLines "(pystr \<times> rat \<times> int \<times> bool) list"

text \<open>
  The application object: the tables, the sequence behind \<open>competencies.id\<close>, the
  attributes \<open>self.competencies\<close>, \<open>self.current_specialty\<close> and
  \<open>self.specialties_data\<close>, the message boxes shown so far, the lines printed so far
  (each element \<open>e\<close> is the line of line 397 for the exception \<open>e\<close>), and the panels.
\<close>

record app =
  entries :: "entry list"
  achievements :: "achievement list"
  user_achievements :: "(nat \<times> nat) list"
  competencies :: "competency list"
  competencies_seq :: nat
  entry_competencies :: "grade list"
  goals :: "goal list"
  self_competencies :: "competency list"
  current_specialty :: "pystr option"
  specialties_data :: "(pystr \<times> (pystr \<times> pystr) list) list"
  dialogs :: "dialog list"
  stdout :: "error list"
  competencies_text :: competencies_panel
  recommendations_text :: "pystr list"
  goals_text :: goals_panel

text \<open>
  A method either returns, with the new state, or raises, with the exception and the
  state at that point.
\<close>

type_synonym outcome = "(error \<times> app) + app"

definition and_then :: "outcome \<Rightarrow> (app \<Rightarrow> outcome) \<Rightarrow> outcome" where
  "and_then r f = (case r of Inl x \<Rightarrow> Inl x | Inr st \<Rightarrow> f st)"

text \<open>
  A statement that only reads, on a connection whose transaction is healthy: it raises
  when the store rejects it. What a rejected statement does to the statements that
  follow it on the same connection is the subject of the section on the connection's
  transaction.
\<close>

definition execute :: "(sql_op \<Rightarrow> bool) \<Rightarrow> sql_op \<Rightarrow> app \<Rightarrow> outcome" where
  "execute fails op st = (if fails op then Inl (StoreError op, st) else Inr st)"

definition no_faults :: "sql_op \<Rightarrow> bool" where
  "no_faults op = False"

section \<open>AchievementEvaluator\<close>

subsection \<open>\<open>unlock_achievement\<close> (lines 384 to 397)\<close>

text \<open>\<open>SELECT id FROM achievements WHERE nazvanie = %s\<close>, then \<open>fetchone()\<close>.\<close>

definition select_achievement_id :: "pystr \<Rightarrow> app \<Rightarrow> nat option" where
  "select_achievement_id achievement_name st =
     map_option a_id (find (\<lambda>a. a_name a = achievement_name) (achievements st))"

text \<open>The body of the \<open>try\<close> block.\<close>

definition unlock_try :: "(sql_op \<Rightarrow> bool) \<Rightarrow> pystr \<Rightarrow> nat \<Rightarrow> app \<Rightarrow> outcome" where
  "unlock_try fails achievement_name user_id st =
     (if fails (SelectAchievementId achievement_name)
      then Inl (StoreError (SelectAchievementId achievement_name), st)
      else case select_achievement_id achievement_name st of
        None \<Rightarrow> Inl (TypeError, st)
      | Some achievement_id \<Rightarrow>
          if fails (SelectUserAchievement user_id achievement_id)
          then Inl (StoreError (SelectUserAchievement user_id achievement_id), st)
          else if (user_id, achievement_id) \<in> set (user_achievements st) then Inr st
          else if fails (InsertUserAchievement user_id achievement_id)
          then Inl (StoreError (InsertUserAchievement user_id achievement_id), st)
          else
            let st1 = st\<lparr>user_achievements :=
                           user_achievements st @ [(user_id, achievement_id)]\<rparr>
            in if fails Commit then Inl (StoreError Commit, st1)
               else Inr (st1\<lparr>dialogs := dialogs st1 @
                           [ShowInfo title_achievement (text_unlocked @ achievement_name)]\<rparr>))"

text \<open>\<open>except Exception as e: print(...)\<close>: whatever the body raises is printed.\<close>

definition unlock_achievement :: "(sql_op \<Rightarrow> bool) \<Rightarrow> pystr \<Rightarrow> nat \<Rightarrow> app \<Rightarrow> outcome" where
  "unlock_achievement fails achievement_name user_id st =
     (case unlock_try fails achievement_name user_id st of
        Inl (e, st') \<Rightarrow> Inr (st'\<lparr>stdout := stdout st' @ [e]\<rparr>)
      | Inr st' \<Rightarrow> Inr st')"

subsection \<open>\<open>check_achievements\<close> (lines 353 to 382)\<close>

text \<open>The five aggregate queries.\<close>

definition count_entries :: "app \<Rightarrow> nat" where
  "count_entries st = length (entries st)"

text \<open>
  \<open>WHERE soavtory IS NOT NULL AND soavtory != '' AND soavtory != ' '\<close>: the column is
  \<open>TEXT\<close>, so the comparisons are exact and only the empty string and the single space
  are excluded.
\<close>

definition has_coauthors :: "entry \<Rightarrow> bool" where
  "has_coauthors e =
     (case e_coauthors e of None \<Rightarrow> False | Some s \<Rightarrow> s \<noteq> [] \<and> s \<noteq> [32])"

definition count_coauthored :: "app \<Rightarrow> nat" where
  "count_coauthored st = length (filter has_coauthors (entries st))"

definition count_types :: "app \<Rightarrow> nat" where
  "count_types st = length (remdups (map e_type (entries st)))"

definition extract_year :: "nat \<times> nat \<times> nat \<Rightarrow> nat" where
  "extract_year d = fst d"

definition count_year :: "nat \<Rightarrow> app \<Rightarrow> nat" where
  "count_year current_year st =
     length (filter (\<lambda>e. extract_year (e_date e) = current_year) (entries st))"

text \<open>\<open>SUM\<close> over no row is \<open>NULL\<close>.\<close>

definition sum_chars :: "app \<Rightarrow> nat option" where
  "sum_chars st =
     (let ds = List.map_filter e_description (entries st)
      in if ds = [] then None else Some (sum_list (map length ds)))"

text \<open>
  \<open>current_year\<close> is \<open>datetime.now().year\<close>. The queries are not inside any \<open>try\<close>:
  an exception of one of them leaves the method at once.
\<close>

definition check_achievements :: "(sql_op \<Rightarrow> bool) \<Rightarrow> nat \<Rightarrow> app \<Rightarrow> outcome" where
  "check_achievements fails current_year st0 =
     (let user_id = 1 in
      and_then (execute fails SelectCountEntries st0) (\<lambda>st.
      and_then (if count_entries st = 1
                then unlock_achievement fails name_first_step user_id st else Inr st) (\<lambda>st.
      and_then (execute fails SelectCountCoauthored st) (\<lambda>st.
      and_then (if 3 \<le> count_coauthored st
                then unlock_achievement fails name_team_player user_id st else Inr st) (\<lambda>st.
      and_then (execute fails SelectCountTypes st) (\<lambda>st.
      and_then (if 3 \<le> count_types st
                then unlock_achievement fails name_versatile user_id st else Inr st) (\<lambda>st.
      and_then (execute fails SelectCountYear st) (\<lambda>st.
      and_then (if 3 \<le> count_year current_year st
                then unlock_achievement fails name_productive_year user_id st else Inr st) (\<lambda>st.
      and_then (execute fails SelectSumChars st) (\<lambda>st.
      let total_chars = (case sum_chars st of None \<Rightarrow> 0 | Some n \<Rightarrow> n)
      in if 5000 < total_chars
         then unlock_achievement fails name_wordsmith user_id st else Inr st))))))))))"

section \<open>CompetencyAggregator\<close>

text \<open>
  A level is an exact rational: \<open>AVG\<close> of integer grades is taken as the exact quotient
  and \<open>float()\<close> as the identity. Python's \<open>round(x, 1)\<close> is a parameter \<open>rnd\<close> of every
  function below that calls it, so that what is proved does not depend on how a decimal
  tie is broken on a binary float.
\<close>

type_synonym comp_row = "nat \<times> pystr \<times> pystr \<times> rat option"

text \<open>\<open>AVG\<close> is \<open>NULL\<close> over no row.\<close>

definition sql_avg :: "int list \<Rightarrow> rat option" where
  "sql_avg ls =
     (if ls = [] then None else Some (of_int (sum_list ls) / of_nat (length ls)))"

definition levels_of :: "nat \<Rightarrow> app \<Rightarrow> int list" where
  "levels_of cid st =
     map gr_level (filter (\<lambda>g. gr_competency g = cid) (entry_competencies st))"

text \<open>
  The query of lines 571 to 577: one row per competency (the groups are keyed by the
  primary key), with the average of the grades joined to it, ordered by category and
  then name, here by code points.
\<close>

definition select_comp_data :: "app \<Rightarrow> comp_row list" where
  "select_comp_data st =
     sort_key (\<lambda>(cid, name, category, avg). (category, name))
       (map (\<lambda>c. (c_id c, c_name c, c_category c, sql_avg (levels_of (c_id c) st)))
            (competencies st))"

text \<open>\<open>avg_level or 0\<close>: \<open>None\<close> and zero both give zero.\<close>

definition level_of :: "rat option \<Rightarrow> rat" where
  "level_of avg_level = (case avg_level of None \<Rightarrow> 0 | Some a \<Rightarrow> a)"

text \<open>
  The loop of lines 583 to 587, on the lines of the panel and the local \<open>weak_zones\<close>.
\<close>

fun levels_loop ::
  "(rat \<Rightarrow> rat) \<Rightarrow> comp_row list \<Rightarrow>
   (pystr \<times> pystr \<times> rat) list \<times> (pystr \<times> rat) list \<Rightarrow>
   (pystr \<times> pystr \<times> rat) list \<times> (pystr \<times> rat) list" where
  "levels_loop rnd [] (text, weak_zones) = (text, weak_zones)"
| "levels_loop rnd ((comp_id, name, category, avg_level) # rest) (text, weak_zones) =
     (let level = rnd (level_of avg_level);
          text1 = text @ [(name, category, level)]
      in if level < 3 \<and> level > 0
         then levels_loop rnd rest (text1, weak_zones @ [(name, level)])
         else levels_loop rnd rest (text1, weak_zones))"

section \<open>RecommendationEngine\<close>

text \<open>The keywords of lines 613, 616 and 619.\<close>

definition kw_programming :: pystr where
  "kw_programming =
     [1055, 1088, 1086, 1075, 1088, 1072, 1084, 1084, 1080, 1088, 1086, 1074, 1072, 1085,
      1080, 1077]"

definition kw_db :: pystr where
  "kw_db =
     [1041, 1044]"

definition kw_presentation :: pystr where
  "kw_presentation =
     [1055, 1088, 1077, 1079, 1077, 1085, 1090, 1072, 1094, 1080, 1103]"

text \<open>The messages of lines 611 to 632, each an f-string around the competency name.\<close>

definition msg_not_assessed :: "pystr \<Rightarrow> pystr" where
  "msg_not_assessed name =
     [1042, 1099, 32, 1077, 1097, 1077, 32, 1085, 1077, 32, 1086, 1094, 1077, 1085, 1080,
      1074, 1072, 1083, 1080, 32, 1082, 1086, 1084, 1087, 1077, 1090, 1077, 1085, 1094,
      1080, 1102, 32, 39]
     @ name @
     [39, 46, 32, 1044, 1086, 1073, 1072, 1074, 1100, 1090, 1077, 32, 1079, 1072, 1087,
      1080, 1089, 1100, 32, 1089, 32, 1101, 1090, 1086, 1081, 32, 1082, 1086, 1084, 1087,
      1077, 1090, 1077, 1085, 1094, 1080, 1077, 1081, 46]"

definition msg_programming :: "pystr \<Rightarrow> pystr" where
  "msg_programming name =
     [1050, 1086, 1084, 1087, 1077, 1090, 1077, 1085, 1094, 1080, 1103, 32, 39]
     @ name @
     [39, 32, 1090, 1088, 1077, 1073, 1091, 1077, 1090, 32, 1088, 1072, 1079, 1074, 1080,
      1090, 1080, 1103, 46, 32, 1056, 1077, 1082, 1086, 1084, 1077, 1085, 1076, 1091, 1077,
      1084, 32, 1088, 1077, 1096, 1072, 1090, 1100, 32, 1079, 1072, 1076, 1072, 1095, 1080,
      32, 1085, 1072, 32, 76, 101, 101, 116, 67, 111, 100, 101, 32, 1080, 1083, 1080, 32,
      67, 111, 100, 101, 119, 97, 114, 115, 46]"

definition msg_db :: "pystr \<Rightarrow> pystr" where
  "msg_db name =
     [1050, 1086, 1084, 1087, 1077, 1090, 1077, 1085, 1094, 1080, 1103, 32, 39]
     @ name @
     [39, 32, 1085, 1080, 1079, 1082, 1072, 1103, 46, 32, 1056, 1077, 1082, 1086, 1084,
      1077, 1085, 1076, 1091, 1077, 1084, 32, 1087, 1088, 1086, 1081, 1090, 1080, 32, 1082,
      1091, 1088, 1089, 32, 1087, 1086, 32, 83, 81, 76, 32, 1080, 32, 78, 111, 83, 81, 76,
      32, 1073, 1072, 1079, 1072, 1084, 32, 1076, 1072, 1085, 1085, 1099, 1093, 46]"

definition msg_presentation :: "pystr \<Rightarrow> pystr" where
  "msg_presentation name =
     [1050, 1086, 1084, 1087, 1077, 1090, 1077, 1085, 1094, 1080, 1103, 32, 39]
     @ name @
     [39, 32, 1089, 1083, 1072, 1073, 1072, 1103, 46, 32, 1042, 1099, 1089, 1090, 1091,
      1087, 1080, 1090, 1077, 32, 1089, 32, 1076, 1086, 1082, 1083, 1072, 1076, 1086, 1084,
      32, 1085, 1072, 32, 1089, 1090, 1091, 1076, 1077, 1085, 1095, 1077, 1089, 1082, 1086,
      1081, 32, 1082, 1086, 1085, 1092, 1077, 1088, 1077, 1085, 1094, 1080, 1080, 46]"

definition msg_serious :: "pystr \<Rightarrow> pystr" where
  "msg_serious name =
     [1050, 1086, 1084, 1087, 1077, 1090, 1077, 1085, 1094, 1080, 1103, 32, 39]
     @ name @
     [39, 32, 1090, 1088, 1077, 1073, 1091, 1077, 1090, 32, 1089, 1077, 1088, 1100, 1077,
      1079, 1085, 1086, 1075, 1086, 32, 1088, 1072, 1079, 1074, 1080, 1090, 1080, 1103, 46,
      32, 1056, 1077, 1082, 1086, 1084, 1077, 1085, 1076, 1091, 1077, 1084, 32, 1087, 1088,
      1086, 1081, 1090, 1080, 32, 1089, 1086, 1086, 1090, 1074, 1077, 1090, 1089, 1090,
      1074, 1091, 1102, 1097, 1080, 1081, 32, 1082, 1091, 1088, 1089, 46]"

definition msg_below_average :: "pystr \<Rightarrow> pystr" where
  "msg_below_average name =
     [1059, 1088, 1086, 1074, 1077, 1085, 1100, 32, 1082, 1086, 1084, 1087, 1077, 1090,
      1077, 1085, 1094, 1080, 1080, 32, 39]
     @ name @
     [39, 32, 1085, 1080, 1078, 1077, 32, 1089, 1088, 1077, 1076, 1085, 1077, 1075, 1086,
      46, 32, 1056, 1077, 1082, 1086, 1084, 1077, 1085, 1076, 1091, 1077, 1084, 32, 1087,
      1088, 1072, 1082, 1090, 1080, 1082, 1086, 1074, 1072, 1090, 1100, 1089, 1103, 32,
      1074, 32, 1101, 1090, 1086, 1081, 32, 1086, 1073, 1083, 1072, 1089, 1090, 1080, 46]"

definition msg_excellent :: "pystr \<Rightarrow> pystr" where
  "msg_excellent name =
     [1050, 1086, 1084, 1087, 1077, 1090, 1077, 1085, 1094, 1080, 1103, 32, 39]
     @ name @
     [39, 32, 1088, 1072, 1079, 1074, 1080, 1090, 1072, 32, 1086, 1090, 1083, 1080, 1095,
      1085, 1086, 33, 32, 1052, 1086, 1078, 1077, 1090, 1077, 32, 1076, 1077, 1083, 1080,
      1090, 1100, 1089, 1103, 32, 1086, 1087, 1099, 1090, 1086, 1084, 32, 1089, 32, 1076,
      1088, 1091, 1075, 1080, 1084, 1080, 46]"

definition msg_fallback :: pystr where
  "msg_fallback =
     [1042, 1089, 1077, 32, 1082, 1086, 1084, 1087, 1077, 1090, 1077, 1085, 1094, 1080,
      1080, 32, 1088, 1072, 1079, 1074, 1080, 1090, 1099, 32, 1093, 1086, 1088, 1086, 1096,
      1086, 33, 32, 1055, 1088, 1086, 1076, 1086, 1083, 1078, 1072, 1081, 1090, 1077, 32,
      1074, 32, 1090, 1086, 1084, 32, 1078, 1077, 32, 1076, 1091, 1093, 1077, 46]"

text \<open>The loop of lines 606 to 629 on the local \<open>recommendations\<close>.\<close>

fun recommendations_loop :: "comp_row list \<Rightarrow> pystr list \<Rightarrow> pystr list" where
  "recommendations_loop [] recommendations = recommendations"
| "recommendations_loop ((comp_id, name, category, avg_level) # rest) recommendations =
     (let level = level_of avg_level in
      if level = 0
      then recommendations_loop rest (recommendations @ [msg_not_assessed name])
      else if level < 2
      then (if py_in kw_programming name
            then recommendations_loop rest (recommendations @ [msg_programming name])
            else if py_in kw_db name
            then recommendations_loop rest (recommendations @ [msg_db name])
            else if py_in kw_presentation name
            then recommendations_loop rest (recommendations @ [msg_presentation name])
            else recommendations_loop rest (recommendations @ [msg_serious name]))
      else if level < 3
      then recommendations_loop rest (recommendations @ [msg_below_average name])
      else if 9 / 2 \<le> level
      then recommendations_loop rest (recommendations @ [msg_excellent name])
      else recommendations_loop rest recommendations)"

text \<open>
  \<open>generate_recommendations\<close> (lines 603 to 639): the panel receives the recommendations,
  numbered from 1 in this order under a heading.
\<close>

definition recommendations_of :: "comp_row list \<Rightarrow> pystr list" where
  "recommendations_of comp_data =
     (let recommendations = recommendations_loop comp_data []
      in if recommendations = [] then [msg_fallback] else recommendations)"

definition generate_recommendations :: "comp_row list \<Rightarrow> app \<Rightarrow> app" where
  "generate_recommendations comp_data st =
     st\<lparr>recommendations_text := recommendations_of comp_data\<rparr>"

text \<open>
  \<open>update_competencies\<close> (lines 563 to 601), on the path where the query succeeds.
\<close>

definition update_competencies :: "(rat \<Rightarrow> rat) \<Rightarrow> app \<Rightarrow> app" where
  "update_competencies rnd st =
     (if self_competencies st = []
      then st\<lparr>competencies_text := LoadFirst, recommendations_text := []\<rparr>
      else
        let comp_data = select_comp_data st;
            (text, weak_zones) = levels_loop rnd comp_data ([], [])
        in generate_recommendations comp_data
             (st\<lparr>competencies_text := Profile text weak_zones\<rparr>))"

section \<open>GoalTracker\<close>










section \<open>Reloading a specialty profile\<close>

text \<open>Title and text of the dialog of line 558.\<close>

definition title_success :: pystr where
  "title_success =
     [1059, 1089, 1087, 1077, 1093]"

definition text_loaded :: pystr where
  "text_loaded =
     [1047, 1072, 1075, 1088, 1091, 1078, 1077, 1085, 1099, 32, 1082, 1086, 1084, 1087,
      1077, 1090, 1077, 1085, 1094, 1080, 1080, 32, 1076, 1083, 1103, 32, 1089, 1087, 1077,
      1094, 1080, 1072, 1083, 1100, 1085, 1086, 1089, 1090, 1080, 58, 32]"

text \<open>
  \<open>DELETE FROM competencies\<close>: every row goes, and with it, through the foreign key
  \<open>ON DELETE CASCADE\<close> of \<open>entry_competencies\<close> (line 108), every grade that references a
  deleted row.
\<close>

definition delete_from_competencies :: "app \<Rightarrow> app" where
  "delete_from_competencies st =
     (let deleted = map c_id (competencies st)
      in st\<lparr>competencies := [],
            entry_competencies :=
              filter (\<lambda>g. gr_competency g \<notin> set deleted) (entry_competencies st)\<rparr>)"

text \<open>
  One turn of the loop of lines 545 to 552: the insert takes the next id of the sequence,
  and the row is appended to \<open>self.competencies\<close>.
\<close>

definition insert_competency :: "app \<Rightarrow> pystr \<times> pystr \<Rightarrow> app" where
  "insert_competency st item =
     (let comp_id = competencies_seq st;
          row = \<lparr>c_id = comp_id, c_name = fst item, c_category = snd item\<rparr>
      in st\<lparr>competencies := competencies st @ [row],
            competencies_seq := Suc comp_id,
            self_competencies := self_competencies st @ [row]\<rparr>)"

text \<open>
  \<open>load_competencies\<close> (lines 534 to 561), on the path where every statement succeeds;
  \<open>specialty\<close> is what the combo box holds, and \<open>specialties_data\<close> maps a specialty to
  the (name, category) pairs of its \<open>competencies\<close> list.
\<close>

definition load_competencies :: "(rat \<Rightarrow> rat) \<Rightarrow> pystr \<Rightarrow> app \<Rightarrow> app" where
  "load_competencies rnd specialty st =
     (case map_of (specialties_data st) specialty of
        None \<Rightarrow> st
      | Some competencies_list \<Rightarrow>
          if specialty = [] then st
          else
            let st1 = st\<lparr>current_specialty := Some specialty, self_competencies := []\<rparr>;
                st2 = delete_from_competencies st1;
                st3 = foldl insert_competency st2 competencies_list;
                st4 = update_competencies rnd st3
            in st4\<lparr>dialogs := dialogs st4 @
                      [ShowInfo title_success (text_loaded @ specialty)]\<rparr>)"

section \<open>The connection's transaction\<close>

text \<open>
  The connection is opened without autocommit (line 45) and the program never rolls
  back. The first statement after a commit opens a transaction; once the store rejects a
  statement, the transaction is aborted and every later \<open>execute\<close> on the connection
  raises until a commit or a rollback ends it. A session is the application together
  with that flag. \<open>save_entry\<close> commits (line 327) before it calls \<open>check_achievements\<close>,
  so the evaluator starts on a session whose flag is \<open>False\<close>.
\<close>

type_synonym session = "bool \<times> app"

type_synonym tx_outcome = "(error \<times> session) + session"

definition tx_then :: "tx_outcome \<Rightarrow> (session \<Rightarrow> tx_outcome) \<Rightarrow> tx_outcome" where
  "tx_then r f = (case r of Inl x \<Rightarrow> Inl x | Inr s \<Rightarrow> f s)"

text \<open>\<open>cursor.execute\<close> of a statement that only reads.\<close>

definition execute_tx :: "(sql_op \<Rightarrow> bool) \<Rightarrow> sql_op \<Rightarrow> session \<Rightarrow> tx_outcome" where
  "execute_tx fails op s =
     (if fst s then Inl (InFailedSqlTransaction, s)
      else if fails op then Inl (StoreError op, (True, snd s))
      else Inr s)"

text \<open>
  The body of the \<open>try\<close> block of \<open>unlock_achievement\<close> (lines 386 to 395) on a session.
  \<open>conn.commit()\<close> ends the transaction: when it raises, the store has rolled the insert
  back.
\<close>

definition unlock_try_tx ::
  "(sql_op \<Rightarrow> bool) \<Rightarrow> pystr \<Rightarrow> nat \<Rightarrow> session \<Rightarrow> tx_outcome" where
  "unlock_try_tx fails achievement_name user_id s0 =
     tx_then (execute_tx fails (SelectAchievementId achievement_name) s0) (\<lambda>s.
     case select_achievement_id achievement_name (snd s) of
       None \<Rightarrow> Inl (TypeError, s)
     | Some achievement_id \<Rightarrow>
         tx_then (execute_tx fails (SelectUserAchievement user_id achievement_id) s) (\<lambda>s.
         if (user_id, achievement_id) \<in> set (user_achievements (snd s)) then Inr s
         else
           tx_then (execute_tx fails (InsertUserAchievement user_id achievement_id) s) (\<lambda>s.
           let st1 = (snd s)\<lparr>user_achievements :=
                              user_achievements (snd s) @ [(user_id, achievement_id)]\<rparr>
           in if fails Commit then Inl (StoreError Commit, (False, snd s))
              else Inr (False, st1\<lparr>dialogs := dialogs st1 @
                          [ShowInfo title_achievement (text_unlocked @ achievement_name)]\<rparr>))))"

text \<open>Lines 396 and 397: the exception is printed, and nothing is rolled back.\<close>

definition unlock_achievement_tx ::
  "(sql_op \<Rightarrow> bool) \<Rightarrow> pystr \<Rightarrow> nat \<Rightarrow> session \<Rightarrow> tx_outcome" where
  "unlock_achievement_tx fails achievement_name user_id s0 =
     (case unlock_try_tx fails achievement_name user_id s0 of
        Inl (e, s) \<Rightarrow> Inr (fst s, (snd s)\<lparr>stdout := stdout (snd s) @ [e]\<rparr>)
      | Inr s \<Rightarrow> Inr s)"

text \<open>\<open>check_achievements\<close> (lines 353 to 382) on a session.\<close>

definition check_achievements_tx ::
  "(sql_op \<Rightarrow> bool) \<Rightarrow> nat \<Rightarrow> session \<Rightarrow> tx_outcome" where
  "check_achievements_tx fails current_year s0 =
     (let user_id = 1 in
      tx_then (execute_tx fails SelectCountEntries s0) (\<lambda>s.
      tx_then (if count_entries (snd s) = 1
               then unlock_achievement_tx fails name_first_step user_id s else Inr s) (\<lambda>s.
      tx_then (execute_tx fails SelectCountCoauthored s) (\<lambda>s.
      tx_then (if 3 \<le> count_coauthored (snd s)
               then unlock_achievement_tx fails name_team_player user_id s else Inr s) (\<lambda>s.
      tx_then (execute_tx fails SelectCountTypes s) (\<lambda>s.
      tx_then (if 3 \<le> count_types (snd s)
               then unlock_achievement_tx fails name_versatile user_id s else Inr s) (\<lambda>s.
      tx_then (execute_tx fails SelectCountYear s) (\<lambda>s.
      tx_then (if 3 \<le> count_year current_year (snd s)
               then unlock_achievement_tx fails name_productive_year user_id s else Inr s) (\<lambda>s.
      tx_then (execute_tx fails SelectSumChars s) (\<lambda>s.
      let total_chars = (case sum_chars (snd s) of None \<Rightarrow> 0 | Some n \<Rightarrow> n)
      in if 5000 < total_chars
         then unlock_achievement_tx fails name_wordsmith user_id s else Inr s))))))))))"

section \<open>Vocabulary of the statements\<close>

text \<open>The state an outcome carries, returned or raised.\<close>

definition state_of :: "outcome \<Rightarrow> app" where
  "state_of r = (case r of Inl (e, st) \<Rightarrow> st | Inr st \<Rightarrow> st)"

text \<open>
  One predicate check of the evaluator, seen from outside: when the condition holds the
  state is whatever \<open>unlock_achievement\<close> leaves for user 1, otherwise it is untouched.
\<close>

definition unlock_if :: "(sql_op \<Rightarrow> bool) \<Rightarrow> bool \<Rightarrow> pystr \<Rightarrow> app \<Rightarrow> app" where
  "unlock_if fails cond achievement_name st =
     (if cond then state_of (unlock_achievement fails achievement_name 1 st) else st)"

text \<open>
  The same on a session: the session \<open>unlock_achievement\<close> leaves for user 1 when the
  check is due.
\<close>

definition unlock_if_tx ::
  "(sql_op \<Rightarrow> bool) \<Rightarrow> bool \<Rightarrow> pystr \<Rightarrow> session \<Rightarrow> session" where
  "unlock_if_tx fails due achievement_name s =
     (if due
      then (case unlock_achievement_tx fails achievement_name 1 s of
              Inl (e, s') \<Rightarrow> s' | Inr s' \<Rightarrow> s')
      else s)"

text \<open>
  When a predicate query of the evaluator raises on a session, and what it then raises:
  the error, and the session at that point.
\<close>

definition query_raises :: "(sql_op \<Rightarrow> bool) \<Rightarrow> sql_op \<Rightarrow> session \<Rightarrow> bool" where
  "query_raises fails op s = (fst s \<or> fails op)"

definition raised :: "sql_op \<Rightarrow> session \<Rightarrow> error \<times> session" where
  "raised op s = (if fst s then InFailedSqlTransaction else StoreError op, (True, snd s))"

text \<open>The dialog of line 395 for an achievement name.\<close>

definition unlocked_dialog :: "pystr \<Rightarrow> dialog" where
  "unlocked_dialog achievement_name =
     ShowInfo title_achievement (text_unlocked @ achievement_name)"

text \<open>The local \<open>weak_zones\<close> of \<open>update_competencies\<close> after its loop.\<close>

definition weak_zones :: "(rat \<Rightarrow> rat) \<Rightarrow> comp_row list \<Rightarrow> (pystr \<times> rat) list" where
  "weak_zones rnd comp_data = snd (levels_loop rnd comp_data ([], []))"

text \<open>
  What is assumed of \<open>round(x, 1)\<close> where a statement needs it: the result is a multiple
  of one tenth and lies within one twentieth of \<open>x\<close>. Python's function is one such
  rounding; \<open>round_tenth\<close>, which breaks ties upwards, is another.
\<close>

definition nearest_tenth :: "(rat \<Rightarrow> rat) \<Rightarrow> bool" where
  "nearest_tenth rnd =
     (\<forall>x. (\<exists>k::int. rnd x = of_int k / 10) \<and> \<bar>rnd x - x\<bar> \<le> 1 / 20)"

definition round_tenth :: "rat \<Rightarrow> rat" where
  "round_tenth x = of_int (round (x * 10)) / 10"

text \<open>What the recommendation loop appends for one row.\<close>

definition emitted :: "comp_row \<Rightarrow> pystr list" where
  "emitted row = recommendations_loop [row] []"

section \<open>Example stores\<close>

text \<open>The catalog as \<open>create_tables\<close> seeds it into an empty table (lines 133 to 143).\<close>

definition descr_first_step :: pystr where
  "descr_first_step =
     [1057, 1086, 1079, 1076, 1072, 1085, 1072, 32, 1087, 1077, 1088, 1074, 1072, 1103, 32,
      1079, 1072, 1087, 1080, 1089, 1100]"

definition descr_team_player :: pystr where
  "descr_team_player =
     [1058, 1088, 1080, 32, 1080, 32, 1073, 1086, 1083, 1077, 1077, 32, 1079, 1072, 1087,
      1080, 1089, 1080, 32, 1089, 32, 1089, 1086, 1072, 1074, 1090, 1086, 1088, 1072, 1084,
      1080]"

definition descr_versatile :: pystr where
  "descr_versatile =
     [1047, 1072, 1087, 1080, 1089, 1080, 32, 1084, 1080, 1085, 1080, 1084, 1091, 1084, 32,
      1090, 1088, 1105, 1093, 32, 1088, 1072, 1079, 1085, 1099, 1093, 32, 1090, 1080, 1087,
      1086, 1074]"

definition descr_productive_year :: pystr where
  "descr_productive_year =
     [1058, 1088, 1080, 32, 1080, 32, 1073, 1086, 1083, 1077, 1077, 32, 1079, 1072, 1087,
      1080, 1089, 1080, 32, 1079, 1072, 32, 1086, 1076, 1080, 1085, 32, 1082, 1072, 1083,
      1077, 1085, 1076, 1072, 1088, 1085, 1099, 1081, 32, 1075, 1086, 1076]"

definition descr_wordsmith :: pystr where
  "descr_wordsmith =
     [1057, 1091, 1084, 1084, 1072, 1088, 1085, 1099, 1081, 32, 1086, 1073, 1098, 1105,
      1084, 32, 1086, 1087, 1080, 1089, 1072, 1085, 1080, 1081, 32, 1087, 1088, 1077, 1074,
      1099, 1089, 1080, 1083, 32, 53, 48, 48, 48, 32, 1089, 1080, 1084, 1074, 1086, 1083,
      1086, 1074]"

definition seed_achievements :: "achievement list" where
  "seed_achievements =
     [\<lparr>a_id = 1, a_name = name_first_step, a_description = Some descr_first_step\<rparr>,
      \<lparr>a_id = 2, a_name = name_team_player, a_description = Some descr_team_player\<rparr>,
      \<lparr>a_id = 3, a_name = name_versatile, a_description = Some descr_versatile\<rparr>,
      \<lparr>a_id = 4, a_name = name_productive_year, a_description = Some descr_productive_year\<rparr>,
      \<lparr>a_id = 5, a_name = name_wordsmith, a_description = Some descr_wordsmith\<rparr>]"

definition fresh_app :: app where
  "fresh_app =
     \<lparr>entries = [], achievements = seed_achievements, user_achievements = [],
      competencies = [], competencies_seq = 1, entry_competencies = [], goals = [],
      self_competencies = [], current_specialty = None, specialties_data = [],
      dialogs = [], stdout = [], competencies_text = PanelEmpty,
      recommendations_text = [], goals_text = NoGoalsYet\<rparr>"

text \<open>Three of the entry types of line 17.\<close>

definition type_project :: pystr where
  "type_project =
     [1055, 1088, 1086, 1077, 1082, 1090]"



text \<open>
  An entry as \<open>save_entry\<close> stores it: the description and the coauthors are strings,
  never \<open>NULL\<close>.
\<close>

definition mk_entry :: "nat \<Rightarrow> pystr \<Rightarrow> nat \<Rightarrow> pystr \<Rightarrow> entry" where
  "mk_entry i typ year coauth =
     \<lparr>e_id = i, e_title = [69], e_type = typ, e_date = (year, 1, 1),
      e_description = Some [], e_coauthors = Some coauth\<rparr>"


text \<open>Three entries of one type, each with a coauthors field of two spaces.\<close>

definition two_spaces_app :: app where
  "two_spaces_app =
     fresh_app\<lparr>entries := [mk_entry 1 type_project 2020 [32, 32],
                            mk_entry 2 type_project 2020 [32, 32],
                            mk_entry 3 type_project 2020 [32, 32]]\<rparr>"






text \<open>Competencies and categories of the default profile (lines 162 to 166).\<close>

definition comp_programming :: pystr where
  "comp_programming =
     [1055, 1088, 1086, 1075, 1088, 1072, 1084, 1084, 1080, 1088, 1086, 1074, 1072, 1085,
      1080, 1077]"

definition comp_db :: pystr where
  "comp_db =
     [1056, 1072, 1073, 1086, 1090, 1072, 32, 1089, 32, 1041, 1044]"

definition comp_presentation :: pystr where
  "comp_presentation =
     [1055, 1088, 1077, 1079, 1077, 1085, 1090, 1072, 1094, 1080, 1103, 32, 1088, 1077,
      1079, 1091, 1083, 1100, 1090, 1072, 1090, 1086, 1074]"

definition comp_writing :: pystr where
  "comp_writing =
     [1053, 1072, 1091, 1095, 1085, 1086, 1077, 32, 1087, 1080, 1089, 1100, 1084, 1086]"

definition cat_technical :: pystr where
  "cat_technical =
     [1058, 1077, 1093, 1085, 1080, 1095, 1077, 1089, 1082, 1080, 1077]"

definition cat_communication :: pystr where
  "cat_communication =
     [1050, 1086, 1084, 1084, 1091, 1085, 1080, 1082, 1072, 1094, 1080, 1086, 1085, 1085,
      1099, 1077]"

text \<open>
  An aggregate of five competencies, of the levels 0 (no grade), 1.5, 2.5, 3.5 and 4.8.
\<close>

definition tiers_comp_data :: "comp_row list" where
  "tiers_comp_data =
     [(1, comp_programming, cat_technical, None),
      (2, comp_db, cat_technical, Some (3 / 2)),
      (3, comp_presentation, cat_communication, Some (5 / 2)),
      (4, comp_writing, cat_communication, Some (7 / 2)),
      (5, comp_writing, cat_communication, Some (24 / 5))]"

text \<open>An aggregate of one competency, of level 3.5.\<close>

definition good_comp_data :: "comp_row list" where
  "good_comp_data = [(1, comp_db, cat_technical, Some (7 / 2))]"

text \<open>
  A store with the one competency \<open>comp_db\<close> and 21 entries that grade it: twenty with
  level 3 and one with level 2, so that its mean is 62/21, about 2.952.
\<close>

definition graded_app :: app where
  "graded_app =
     fresh_app\<lparr>entries := map (\<lambda>i. mk_entry i type_project 2020 []) [1..<22],
               competencies := [\<lparr>c_id = 1, c_name = comp_db, c_category = cat_technical\<rparr>],
               competencies_seq := 2,
               entry_competencies :=
                 map (\<lambda>i. \<lparr>gr_entry = i, gr_competency = 1, gr_level = 3\<rparr>) [1..<21]
                 @ [\<lparr>gr_entry = 21, gr_competency = 1, gr_level = 2\<rparr>],
               self_competencies := [\<lparr>c_id = 1, c_name = comp_db, c_category = cat_technical\<rparr>]\<rparr>"

text \<open>An aggregate with the three levels 2.9, 0 (no grade) and 3.\<close>

definition boundary_comp_data :: "comp_row list" where
  "boundary_comp_data =
     [(1, comp_db, cat_technical, Some (29 / 10)),
      (2, comp_writing, cat_communication, None),
      (3, comp_presentation, cat_communication, Some 3)]"






text \<open>
  A store with the specialty of the default profile loaded as the two competencies
  \<open>comp_programming\<close> and \<open>comp_db\<close>, of which the table holds \<open>comp_db\<close>, graded 2 by
  the one entry.
\<close>

definition specialty_is :: pystr where
  "specialty_is =
     [1048, 1085, 1092, 1086, 1088, 1084, 1072, 1094, 1080, 1086, 1085, 1085, 1099, 1077,
      32, 1089, 1080, 1089, 1090, 1077, 1084, 1099]"

definition reload_app :: app where
  "reload_app =
     fresh_app\<lparr>entries := [mk_entry 1 type_project 2020 []],
               competencies := [\<lparr>c_id = 1, c_name = comp_db, c_category = cat_technical\<rparr>],
               competencies_seq := 2,
               entry_competencies := [\<lparr>gr_entry = 1, gr_competency = 1, gr_level = 2\<rparr>],
               self_competencies := [\<lparr>c_id = 1, c_name = comp_db, c_category = cat_technical\<rparr>],
               current_specialty := Some specialty_is,
               specialties_data :=
                 [(specialty_is, [(comp_programming, cat_technical), (comp_db, cat_technical)])]\<rparr>"

section \<open>Properties of the AchievementEvaluator\<close>

subsection \<open>Sequencing and frame lemmas\<close>

lemma and_then_Inr: "and_then (Inr st) f = f st"
  by (simp add: and_then_def)

lemma and_then_Inl: "and_then (Inl x) f = Inl x"
  by (simp add: and_then_def)

lemma unlock_achievement_Inr:
  "unlock_achievement fails n u st = Inr (state_of (unlock_achievement fails n u st))"
  by (simp add: unlock_achievement_def state_of_def split: sum.splits prod.splits)

lemma unlock_try_entries:
  "entries (state_of (unlock_try fails n u st)) = entries st \<and>
   achievements (state_of (unlock_try fails n u st)) = achievements st"
  by (simp add: unlock_try_def state_of_def Let_def split: option.splits)

lemma unlock_achievement_entries:
  "entries (state_of (unlock_achievement fails n u st)) = entries st \<and>
   achievements (state_of (unlock_achievement fails n u st)) = achievements st"
  using unlock_try_entries [of fails n u st]
  by (simp add: unlock_achievement_def state_of_def split: sum.splits prod.splits)

lemma unlock_if_entries:
  "entries (unlock_if fails c n st) = entries st"
  "achievements (unlock_if fails c n st) = achievements st"
  by (simp_all add: unlock_if_def unlock_achievement_entries)

lemma counts_unlock_if:
  "count_entries (unlock_if fails c n st) = count_entries st"
  "count_coauthored (unlock_if fails c n st) = count_coauthored st"
  "count_types (unlock_if fails c n st) = count_types st"
  "count_year y (unlock_if fails c n st) = count_year y st"
  "sum_chars (unlock_if fails c n st) = sum_chars st"
  by (simp_all add: count_entries_def count_coauthored_def count_types_def count_year_def
      sum_chars_def unlock_if_entries)

lemma unlock_step:
  "(if c then unlock_achievement fails n 1 st else Inr st) = Inr (unlock_if fails c n st)"
  using unlock_achievement_Inr [of fails n 1 st] by (simp add: unlock_if_def)

lemma check_achievements_steps:
  assumes "\<not> fails SelectCountEntries" "\<not> fails SelectCountCoauthored"
    "\<not> fails SelectCountTypes" "\<not> fails SelectCountYear" "\<not> fails SelectSumChars"
  shows "check_achievements fails year st =
     Inr (unlock_if fails (5000 < (case sum_chars st of None \<Rightarrow> 0 | Some n \<Rightarrow> n)) name_wordsmith
         (unlock_if fails (3 \<le> count_year year st) name_productive_year
         (unlock_if fails (3 \<le> count_types st) name_versatile
         (unlock_if fails (3 \<le> count_coauthored st) name_team_player
         (unlock_if fails (count_entries st = 1) name_first_step st)))))"
  unfolding check_achievements_def Let_def
  by (simp only: execute_def assms if_False and_then_Inr unlock_step counts_unlock_if)

lemma unlock_no_faults:
  "unlock_achievement no_faults n u st =
     Inr (case select_achievement_id n st of
            None \<Rightarrow> st\<lparr>stdout := stdout st @ [TypeError]\<rparr>
          | Some a \<Rightarrow>
              if (u, a) \<in> set (user_achievements st) then st
              else st\<lparr>user_achievements := user_achievements st @ [(u, a)],
                      dialogs := dialogs st @ [unlocked_dialog n]\<rparr>)"
  by (simp add: unlock_achievement_def unlock_try_def no_faults_def unlocked_dialog_def Let_def
      split: option.splits)

lemma distinct_count_list_1:
  "distinct xs \<Longrightarrow> x \<in> set xs \<Longrightarrow> count_list xs x = 1"
  by (induction xs) auto

subsection \<open>Unlocking\<close>

text \<open>
  C1. When no statement fails, the name is in the catalog and the primary key of
  \<open>user_achievements\<close> holds, a call of \<open>unlock_achievement\<close> returns; a second call
  for the same user and name returns the state unchanged (no row, no dialog, no printed
  line); the pair is then in the table exactly once; and the first call shows the
  unlock dialog exactly when the pair was not yet there, printing nothing.
\<close>

theorem unlock_achievement_idempotent:
  assumes "select_achievement_id achievement_name st = Some aid"
    and "distinct (user_achievements st)"
  shows "\<exists>st1. unlock_achievement no_faults achievement_name user st = Inr st1
           \<and> unlock_achievement no_faults achievement_name user st1 = Inr st1
           \<and> count_list (user_achievements st1) (user, aid) = 1
           \<and> dialogs st1 = dialogs st @
                (if (user, aid) \<in> set (user_achievements st) then []
                 else [unlocked_dialog achievement_name])
           \<and> stdout st1 = stdout st"
proof (cases "(user, aid) \<in> set (user_achievements st)")
  case True
  with assms have "count_list (user_achievements st) (user, aid) = 1"
    by (simp add: distinct_count_list_1)
  with True assms(1) show ?thesis
    by (simp add: unlock_no_faults)
next
  case False
  let ?st1 = "st\<lparr>user_achievements := user_achievements st @ [(user, aid)],
                  dialogs := dialogs st @ [unlocked_dialog achievement_name]\<rparr>"
  have sel: "select_achievement_id achievement_name ?st1 = Some aid"
    using assms(1) by (simp add: select_achievement_id_def)
  have "count_list (user_achievements st) (user, aid) = 0"
    using False by (simp add: count_list_0_iff)
  with False assms(1) sel show ?thesis
    by (simp add: unlock_no_faults)
qed


text \<open>
  C1, witness: on the freshly seeded store, unlocking the first achievement of the
  catalog twice for user 1.
\<close>

theorem unlock_achievement_idempotent_witness:
  "select_achievement_id name_first_step fresh_app = Some 1
   \<and> distinct (user_achievements fresh_app)
   \<and> (\<exists>st1. unlock_achievement no_faults name_first_step 1 fresh_app = Inr st1
           \<and> unlock_achievement no_faults name_first_step 1 st1 = Inr st1
           \<and> count_list (user_achievements st1) (1, 1) = 1
           \<and> dialogs st1 = [unlocked_dialog name_first_step]
           \<and> stdout st1 = [])"
proof -
  have h1: "select_achievement_id name_first_step fresh_app = Some 1"
    by (simp add: select_achievement_id_def fresh_app_def seed_achievements_def)
  have h2: "distinct (user_achievements fresh_app)"
    by (simp add: fresh_app_def)
  show ?thesis
    using h1 h2 unlock_achievement_idempotent [OF h1 h2, of 1]
    by (simp add: fresh_app_def)
qed

text \<open>
  C8, counterexample: the name \<open>X\<close> is not in the seeded catalog, and the call does not
  raise: it returns, having printed the \<open>TypeError\<close> of \<open>fetchone()[0]\<close>.
\<close>

theorem unlock_missing_name_counterexample:
  "unlock_achievement no_faults [88] 1 fresh_app = Inr (fresh_app\<lparr>stdout := [TypeError]\<rparr>)"
  by (simp add: unlock_no_faults select_achievement_id_def fresh_app_def seed_achievements_def
      name_first_step_def name_team_player_def name_versatile_def name_productive_year_def
      name_wordsmith_def)

text \<open>
  C8, amended. For a name that is absent from the catalog, \<open>unlock_achievement\<close> returns
  normally whatever the store does: it inserts no row and shows no dialog, and the only
  effect is the printed line of its \<open>except\<close> branch, for the \<open>TypeError\<close> of the empty
  lookup (or for the store's own exception when the lookup statement itself fails).
\<close>

theorem unlock_missing_name:
  assumes "select_achievement_id achievement_name st = None"
  shows "unlock_achievement fails achievement_name user st =
           Inr (st\<lparr>stdout := stdout st @
                  [if fails (SelectAchievementId achievement_name)
                   then StoreError (SelectAchievementId achievement_name) else TypeError]\<rparr>)"
  using assms by (simp add: unlock_achievement_def unlock_try_def)

text \<open>
  C8, witness: the name \<open>X\<close> on the seeded store.
\<close>

theorem unlock_missing_name_witness:
  "select_achievement_id [88] fresh_app = None
   \<and> unlock_achievement no_faults [88] 1 fresh_app = Inr (fresh_app\<lparr>stdout := [TypeError]\<rparr>)"
proof -
  have h: "select_achievement_id [88] fresh_app = None"
    by (simp add: select_achievement_id_def fresh_app_def seed_achievements_def
      name_first_step_def name_team_player_def name_versatile_def name_productive_year_def
      name_wordsmith_def)
  show ?thesis
    using h unlock_missing_name [OF h, of no_faults 1]
    by (simp add: no_faults_def fresh_app_def)
qed

text \<open>
  The store \<open>two_spaces_app\<close>: three entries, one type, none of the year 2025, empty
  descriptions, and a coauthors field of two spaces in each.
\<close>

lemma two_spaces_counts:
  "count_entries two_spaces_app = 3"
  "count_coauthored two_spaces_app = 3"
  "count_types two_spaces_app = 1"
  "count_year 2025 two_spaces_app = 0"
  "sum_chars two_spaces_app = Some 0"
  by (simp_all add: two_spaces_app_def fresh_app_def mk_entry_def count_entries_def
      count_coauthored_def has_coauthors_def count_types_def count_year_def extract_year_def
      sum_chars_def List.map_filter_def)

lemma two_spaces_select:
  "select_achievement_id name_team_player two_spaces_app = Some 2"
  by (simp add: select_achievement_id_def two_spaces_app_def fresh_app_def seed_achievements_def
      name_first_step_def name_team_player_def)

text \<open>
  C7, the code at the failing input: three entries whose coauthors field is two spaces
  are counted as coauthored, and the evaluator unlocks the second achievement of the
  catalog (the one for three entries with coauthors), although no entry names a coauthor.
\<close>

theorem team_player_two_spaces:
  "count_coauthored two_spaces_app = 3
   \<and> check_achievements no_faults 2025 two_spaces_app =
       Inr (two_spaces_app\<lparr>user_achievements := [(1, 2)],
                           dialogs := [unlocked_dialog name_team_player]\<rparr>)"
proof -
  have "user_achievements two_spaces_app = []" "dialogs two_spaces_app = []"
    by (simp_all add: two_spaces_app_def fresh_app_def)
  then show ?thesis
    by (simp add: check_achievements_steps no_faults_def two_spaces_counts unlock_if_def
        state_of_def unlock_no_faults two_spaces_select)
qed

subsection \<open>The first achievement of the catalog\<close>









subsection \<open>Failures of the store\<close>

lemma tx_then_Inr: "tx_then (Inr s) f = f s"
  by (simp add: tx_then_def)

lemma tx_then_execute:
  "tx_then (execute_tx fails op s) f =
     (if query_raises fails op s then Inl (raised op s) else f s)"
  by (cases s) (simp add: tx_then_def execute_tx_def query_raises_def raised_def)

text \<open>
  What \<open>unlock_achievement\<close> leaves on a session, for every store: it always returns,
  and each exception of its body ends as one printed line.
\<close>

lemma unlock_achievement_tx_exact:
  "unlock_achievement_tx fails achievement_name user (aborted, st) =
     Inr (if aborted then (True, st\<lparr>stdout := stdout st @ [InFailedSqlTransaction]\<rparr>)
          else if fails (SelectAchievementId achievement_name)
          then (True, st\<lparr>stdout := stdout st @
                   [StoreError (SelectAchievementId achievement_name)]\<rparr>)
          else case select_achievement_id achievement_name st of
            None \<Rightarrow> (False, st\<lparr>stdout := stdout st @ [TypeError]\<rparr>)
          | Some aid \<Rightarrow>
              if fails (SelectUserAchievement user aid)
              then (True, st\<lparr>stdout := stdout st @
                       [StoreError (SelectUserAchievement user aid)]\<rparr>)
              else if (user, aid) \<in> set (user_achievements st) then (False, st)
              else if fails (InsertUserAchievement user aid)
              then (True, st\<lparr>stdout := stdout st @
                       [StoreError (InsertUserAchievement user aid)]\<rparr>)
              else if fails Commit
              then (False, st\<lparr>stdout := stdout st @ [StoreError Commit]\<rparr>)
              else (False, st\<lparr>user_achievements := user_achievements st @ [(user, aid)],
                             dialogs := dialogs st @ [unlocked_dialog achievement_name]\<rparr>))"
  by (simp add: unlock_achievement_tx_def unlock_try_tx_def tx_then_def execute_tx_def
      unlocked_dialog_def Let_def split: option.splits)

lemma unlock_step_tx:
  "(if due then unlock_achievement_tx fails n 1 s else Inr s) = Inr (unlock_if_tx fails due n s)"
  by (cases s) (simp add: unlock_if_tx_def unlock_achievement_tx_exact)

lemma unlock_if_tx_entries:
  "entries (snd (unlock_if_tx fails due n s)) = entries (snd s)"
  by (cases s) (simp add: unlock_if_tx_def unlock_achievement_tx_exact split: option.splits)

lemma counts_unlock_if_tx:
  "count_entries (snd (unlock_if_tx fails due n s)) = count_entries (snd s)"
  "count_coauthored (snd (unlock_if_tx fails due n s)) = count_coauthored (snd s)"
  "count_types (snd (unlock_if_tx fails due n s)) = count_types (snd s)"
  "count_year y (snd (unlock_if_tx fails due n s)) = count_year y (snd s)"
  "sum_chars (snd (unlock_if_tx fails due n s)) = sum_chars (snd s)"
  by (simp_all add: count_entries_def count_coauthored_def count_types_def count_year_def
      sum_chars_def unlock_if_tx_entries)

text \<open>
  The evaluator on a session, for every store: the conditions are those of the store at
  the start, since an unlock changes no entry.
\<close>

lemma check_achievements_tx_steps:
  "check_achievements_tx fails year s0 =
    (let s1 = unlock_if_tx fails (count_entries (snd s0) = 1) name_first_step s0;
         s2 = unlock_if_tx fails (3 \<le> count_coauthored (snd s0)) name_team_player s1;
         s3 = unlock_if_tx fails (3 \<le> count_types (snd s0)) name_versatile s2;
         s4 = unlock_if_tx fails (3 \<le> count_year year (snd s0)) name_productive_year s3;
         s5 = unlock_if_tx fails
                (5000 < (case sum_chars (snd s0) of None \<Rightarrow> 0 | Some n \<Rightarrow> n))
                name_wordsmith s4
     in if query_raises fails SelectCountEntries s0 then Inl (raised SelectCountEntries s0)
        else if query_raises fails SelectCountCoauthored s1
        then Inl (raised SelectCountCoauthored s1)
        else if query_raises fails SelectCountTypes s2 then Inl (raised SelectCountTypes s2)
        else if query_raises fails SelectCountYear s3 then Inl (raised SelectCountYear s3)
        else if query_raises fails SelectSumChars s4 then Inl (raised SelectSumChars s4)
        else Inr s5)"
  unfolding check_achievements_tx_def Let_def
  by (simp only: tx_then_execute tx_then_Inr unlock_step_tx counts_unlock_if_tx if_True
      if_False cong: if_cong)
text \<open>
  On a store that rejects nothing, the evaluator on a session whose transaction is
  healthy does what \<open>check_achievements\<close> does, and leaves the transaction healthy.
\<close>

lemma unlock_if_tx_no_faults:
  "unlock_if_tx no_faults due n (False, st) = (False, unlock_if no_faults due n st)"
  by (simp add: unlock_if_tx_def unlock_achievement_tx_exact unlock_if_def state_of_def
      unlock_no_faults no_faults_def split: option.splits)

lemma check_achievements_tx_no_faults:
  "check_achievements_tx no_faults year (False, st) =
     Inr (False, state_of (check_achievements no_faults year st))"
  by (simp add: check_achievements_tx_steps check_achievements_steps Let_def query_raises_def
      no_faults_def unlock_if_tx_no_faults state_of_def)






section \<open>Properties of the RecommendationEngine\<close>

lemma recommendations_loop_concat:
  "recommendations_loop rows acc = acc @ concat (map emitted rows)"
  by (induction rows arbitrary: acc) (auto simp: emitted_def Let_def)

lemma emitted_simps:
  "emitted (i, n, c, a) =
     (if level_of a = 0 then [msg_not_assessed n]
      else if level_of a < 2
      then (if py_in kw_programming n then [msg_programming n]
            else if py_in kw_db n then [msg_db n]
            else if py_in kw_presentation n then [msg_presentation n]
            else [msg_serious n])
      else if level_of a < 3 then [msg_below_average n]
      else if 9 / 2 \<le> level_of a then [msg_excellent n]
      else [])"
  by (simp add: emitted_def Let_def)

lemma critical_messages_distinct:
  "distinct [msg_programming n, msg_db n, msg_presentation n, msg_serious n]"
  by (simp add: msg_programming_def msg_db_def msg_presentation_def msg_serious_def)

lemma not_fallback:
  "msg_not_assessed n \<noteq> msg_fallback" "msg_programming n \<noteq> msg_fallback"
  "msg_db n \<noteq> msg_fallback" "msg_presentation n \<noteq> msg_fallback"
  "msg_serious n \<noteq> msg_fallback" "msg_below_average n \<noteq> msg_fallback"
  "msg_excellent n \<noteq> msg_fallback"
  by (simp_all add: msg_not_assessed_def msg_programming_def msg_db_def msg_presentation_def
      msg_serious_def msg_below_average_def msg_excellent_def msg_fallback_def)

text \<open>
  C4. The recommendations are, in the order of the rows, what each row emits; and a row
  emits exactly one message when its level is 0 (not yet assessed), when it is in (0, 2)
  (the message of the first keyword among programming, database and presentation that
  the name contains, the serious-development message when it contains none; the four
  are pairwise different), when it is in [2, 3) (practice more) and when it is at least
  4.5 (share your expertise); it emits nothing when its level is in [3, 4.5). What
  \<open>generate_recommendations\<close> puts into the panel is exactly these messages, row after
  row, or the fallback message alone when no row emits one.
\<close>

theorem recommendation_tiers:
  "recommendations_loop rows [] = concat (map emitted rows)
   \<and> (level_of a = 0 \<longrightarrow> emitted (i, n, c, a) = [msg_not_assessed n])
   \<and> (0 < level_of a \<and> level_of a < 2 \<longrightarrow>
        emitted (i, n, c, a) =
          [if py_in kw_programming n then msg_programming n
           else if py_in kw_db n then msg_db n
           else if py_in kw_presentation n then msg_presentation n
           else msg_serious n])
   \<and> (2 \<le> level_of a \<and> level_of a < 3 \<longrightarrow> emitted (i, n, c, a) = [msg_below_average n])
   \<and> (3 \<le> level_of a \<and> level_of a < 9 / 2 \<longrightarrow> emitted (i, n, c, a) = [])
   \<and> (9 / 2 \<le> level_of a \<longrightarrow> emitted (i, n, c, a) = [msg_excellent n])
   \<and> distinct [msg_programming n, msg_db n, msg_presentation n, msg_serious n]
   \<and> recommendations_of rows =
        (if concat (map emitted rows) = [] then [msg_fallback] else concat (map emitted rows))
   \<and> recommendations_text (generate_recommendations rows st) =
        (if concat (map emitted rows) = [] then [msg_fallback] else concat (map emitted rows))"
proof (intro conjI impI)
  show "recommendations_loop rows [] = concat (map emitted rows)"
    by (simp add: recommendations_loop_concat)
  show "recommendations_of rows =
        (if concat (map emitted rows) = [] then [msg_fallback] else concat (map emitted rows))"
    by (simp add: recommendations_of_def recommendations_loop_concat)
  show "recommendations_text (generate_recommendations rows st) =
        (if concat (map emitted rows) = [] then [msg_fallback] else concat (map emitted rows))"
    by (simp add: generate_recommendations_def recommendations_of_def
        recommendations_loop_concat)
  show "distinct [msg_programming n, msg_db n, msg_presentation n, msg_serious n]"
    by (rule critical_messages_distinct)
qed (simp_all add: emitted_simps)

lemma keyword_facts:
  "py_in kw_programming comp_programming"
  "\<not> py_in kw_programming comp_db" "py_in kw_db comp_db"
  "\<not> py_in kw_programming comp_presentation" "\<not> py_in kw_db comp_presentation"
  "py_in kw_presentation comp_presentation"
  "\<not> py_in kw_programming comp_writing" "\<not> py_in kw_db comp_writing"
  "\<not> py_in kw_presentation comp_writing"
  by (simp_all add: kw_programming_def kw_db_def kw_presentation_def comp_programming_def
      comp_db_def comp_presentation_def comp_writing_def)

text \<open>
  C4, witness: one row in each tier, and in the tier (0, 2) one name for each keyword
  and one with none; and the panel for an aggregate of five competencies of the levels
  0, 1.5, 2.5, 3.5 and 4.8, which holds four messages.
\<close>

theorem recommendation_tiers_witness:
  "emitted (1, comp_programming, cat_technical, None) = [msg_not_assessed comp_programming]
   \<and> emitted (1, comp_programming, cat_technical, Some (3 / 2)) = [msg_programming comp_programming]
   \<and> emitted (2, comp_db, cat_technical, Some (3 / 2)) = [msg_db comp_db]
   \<and> emitted (3, comp_presentation, cat_communication, Some (3 / 2))
       = [msg_presentation comp_presentation]
   \<and> emitted (4, comp_writing, cat_communication, Some (3 / 2)) = [msg_serious comp_writing]
   \<and> emitted (4, comp_writing, cat_communication, Some (5 / 2)) = [msg_below_average comp_writing]
   \<and> emitted (4, comp_writing, cat_communication, Some (7 / 2)) = []
   \<and> emitted (4, comp_writing, cat_communication, Some (24 / 5)) = [msg_excellent comp_writing]
   \<and> recommendations_text (generate_recommendations tiers_comp_data fresh_app) =
        [msg_not_assessed comp_programming, msg_db comp_db,
         msg_below_average comp_presentation, msg_excellent comp_writing]"
  using recommendation_tiers [of tiers_comp_data None 1 comp_programming cat_technical fresh_app]
    recommendation_tiers [of "[]" "Some (3 / 2)" 1 comp_programming cat_technical]
    recommendation_tiers [of "[]" "Some (3 / 2)" 2 comp_db cat_technical]
    recommendation_tiers [of "[]" "Some (3 / 2)" 3 comp_presentation cat_communication]
    recommendation_tiers [of "[]" "Some (3 / 2)" 4 comp_writing cat_communication]
    recommendation_tiers [of "[]" "Some (5 / 2)" 4 comp_writing cat_communication]
    recommendation_tiers [of "[]" "Some (7 / 2)" 4 comp_writing cat_communication]
    recommendation_tiers [of "[]" "Some (24 / 5)" 4 comp_writing cat_communication]
  by (simp add: level_of_def keyword_facts tiers_comp_data_def emitted_simps)

lemma emitted_empty_iff:
  "emitted row = [] \<longleftrightarrow>
     3 \<le> level_of (snd (snd (snd row))) \<and> level_of (snd (snd (snd row))) < 9 / 2"
  by (cases row) (auto simp: emitted_simps)

lemma fallback_not_emitted: "msg_fallback \<notin> set (emitted row)"
  by (cases row) (simp add: emitted_simps not_fallback not_fallback [symmetric])

lemma loop_empty_iff:
  "recommendations_loop rows [] = [] \<longleftrightarrow>
     (\<forall>row \<in> set rows. 3 \<le> level_of (snd (snd (snd row)))
                        \<and> level_of (snd (snd (snd row))) < 9 / 2)"
  by (simp add: recommendations_loop_concat emitted_empty_iff)

lemma fallback_not_in_loop: "msg_fallback \<notin> set (recommendations_loop rows [])"
  by (simp add: recommendations_loop_concat fallback_not_emitted)

text \<open>
  C6, counterexample: the aggregate has one competency, of level 3.5, and the fallback
  message is emitted.
\<close>

theorem fallback_counterexample:
  "good_comp_data \<noteq> [] \<and> recommendations_of good_comp_data = [msg_fallback]"
  by (simp add: good_comp_data_def recommendations_of_def level_of_def)

text \<open>
  C6, amended. The fallback message is emitted exactly when no row of the aggregate
  emits a message, that is when every level lies in [3, 4.5), the empty aggregate
  included; and when it is emitted it is the only message.
\<close>

theorem fallback_iff_no_message:
  "(msg_fallback \<in> set (recommendations_of rows) \<longleftrightarrow>
      (\<forall>row \<in> set rows. 3 \<le> level_of (snd (snd (snd row)))
                         \<and> level_of (snd (snd (snd row))) < 9 / 2))
   \<and> (msg_fallback \<in> set (recommendations_of rows) \<longleftrightarrow>
        recommendations_of rows = [msg_fallback])"
proof (cases "recommendations_loop rows [] = []")
  case True
  then show ?thesis
    using loop_empty_iff [of rows] by (simp add: recommendations_of_def)
next
  case False
  have "msg_fallback \<notin> set (recommendations_loop rows [])"
    by (rule fallback_not_in_loop)
  moreover have "recommendations_loop rows [] \<noteq> [msg_fallback]"
    using fallback_not_in_loop [of rows] by auto
  ultimately show ?thesis
    using False loop_empty_iff [of rows] by (simp add: recommendations_of_def)
qed

text \<open>
  C6, witness: the aggregate of one competency of level 3.5.
\<close>

theorem fallback_iff_no_message_witness:
  "(3::rat) \<le> level_of (Some (7 / 2)) \<and> level_of (Some (7 / 2)) < (9::rat) / 2
   \<and> msg_fallback \<in> set (recommendations_of good_comp_data)
   \<and> recommendations_of good_comp_data = [msg_fallback]"
proof -
  have h: "\<forall>row \<in> set good_comp_data. 3 \<le> level_of (snd (snd (snd row)))
                         \<and> level_of (snd (snd (snd row))) < 9 / 2"
    by (simp add: good_comp_data_def level_of_def)
  have "msg_fallback \<in> set (recommendations_of good_comp_data)
        \<and> recommendations_of good_comp_data = [msg_fallback]"
    using h fallback_iff_no_message [of good_comp_data] by blast
  then show ?thesis by (simp add: level_of_def)
qed
section \<open>Properties of the CompetencyAggregator\<close>

lemma levels_loop_weak:
  "snd (levels_loop rnd rows (t, w)) =
     w @ map (\<lambda>(i, n, c, a). (n, rnd (level_of a)))
           (filter (\<lambda>(i, n, c, a). 0 < rnd (level_of a) \<and> rnd (level_of a) < 3) rows)"
proof (induction rows arbitrary: t w)
  case Nil
  show ?case by simp
next
  case (Cons row rows)
  obtain i n c a where row: "row = (i, n, c, a)" by (cases row) auto
  show ?case
  proof (cases "rnd (level_of a) < 3 \<and> rnd (level_of a) > 0")
    case True
    then show ?thesis by (simp add: row Let_def Cons.IH)
  next
    case False
    then have "\<not> (0 < rnd (level_of a) \<and> rnd (level_of a) < 3)" by blast
    with False show ?thesis by (simp add: row Let_def Cons.IH)
  qed
qed

lemma nearest_tenth_inside:
  assumes "nearest_tenth rnd" and "1 / 20 < m" and "m < 59 / 20"
  shows "0 < rnd m \<and> rnd m < 3"
proof -
  from assms(1) have "\<bar>rnd m - m\<bar> \<le> 1 / 20" by (simp add: nearest_tenth_def)
  with assms(2,3) show ?thesis by linarith
qed

lemma nearest_tenth_outside:
  assumes "nearest_tenth rnd" and "m < 1 / 20 \<or> 59 / 20 < m"
  shows "\<not> (0 < rnd m \<and> rnd m < 3)"
proof -
  from assms(1) obtain k :: int where k: "rnd m = of_int k / 10"
    and near: "\<bar>rnd m - m\<bar> \<le> 1 / 20"
    by (auto simp: nearest_tenth_def)
  from assms(2) show ?thesis
  proof
    assume "m < 1 / 20"
    with near k have "(of_int k :: rat) < 1" by linarith
    then have "k \<le> 0" by simp
    then have "(of_int k :: rat) \<le> 0" by simp
    with k show ?thesis by simp
  next
    assume "59 / 20 < m"
    with near k have "(29 :: rat) < of_int k" by linarith
    then have "29 < k" by linarith
    then have "30 \<le> k" by simp
    then have "(30 :: rat) \<le> of_int k" by linarith
    with k show ?thesis by simp
  qed
qed

lemma nearest_tenth_fixed:
  assumes "nearest_tenth rnd"
  shows "rnd (of_int j / 10) = of_int j / 10"
proof -
  from assms obtain k :: int where k: "rnd (of_int j / 10) = of_int k / 10"
    and near: "\<bar>rnd (of_int j / 10) - of_int j / 10\<bar> \<le> 1 / 20"
    by (auto simp: nearest_tenth_def)
  from near k have "\<bar>(of_int k :: rat) - of_int j\<bar> \<le> 1 / 2" by linarith
  then have "\<bar>(of_int (k - j) :: rat)\<bar> < 1" by simp
  then have "\<bar>k - j\<bar> < 1" by linarith
  then have "k = j" by simp
  with k show ?thesis by simp
qed

lemma nearest_tenth_round_tenth: "nearest_tenth round_tenth"
proof -
  have "\<bar>round_tenth x - x\<bar> \<le> 1 / 20" for x :: rat
  proof -
    have "\<bar>of_int (round (x * 10)) - x * 10\<bar> \<le> 1 / 2"
      by (rule of_int_round_abs_le)
    then show ?thesis by (simp add: round_tenth_def field_simps)
  qed
  then show ?thesis
    by (auto simp: nearest_tenth_def round_tenth_def)
qed
lemma graded_comp_data:
  "select_comp_data graded_app = [(1, comp_db, cat_technical, Some (62 / 21))]"
  by (simp add: select_comp_data_def graded_app_def fresh_app_def levels_of_def sql_avg_def
      upt_rec [of _ "numeral n" for n])

lemma round_tenth_values:
  "round_tenth 0 = 0" "round_tenth (29 / 10) = 29 / 10" "round_tenth 3 = 3"
  "round_tenth (62 / 21) = 3" "round_tenth 2 = 2"
  by (simp_all add: round_tenth_def round_def floor_eq_iff)

text \<open>
  C5, counterexample: the competency of \<open>graded_app\<close> has the mean 62/21, strictly
  between 0 and 3, and is not in the weak zones: the filter of line 586 reads the level
  after \<open>round(_, 1)\<close>, which is 3.0 here (62/21 is no decimal tie, so every rounding to
  the nearest tenth agrees).
\<close>

theorem weak_zone_counterexample:
  "select_comp_data graded_app = [(1, comp_db, cat_technical, Some (62 / 21))]
   \<and> (0::rat) < 62 / 21 \<and> (62::rat) / 21 < 3
   \<and> weak_zones round_tenth (select_comp_data graded_app) = []"
  by (simp add: graded_comp_data weak_zones_def level_of_def round_tenth_values)

text \<open>
  C5, amended. For every rounding to the nearest tenth, the weak zones are, in order, the
  rows whose mean level rounded to one decimal is strictly between 0 and 3, each with its
  rounded level. So a mean of 0 never appears, a mean of 2.9 appears and a mean of 3.0
  does not; every mean strictly between 0.05 and 2.95 appears, and no mean above 2.95
  does, although those below 3 are less than 3.
\<close>

theorem weak_zones_rounded:
  assumes "nearest_tenth rnd"
  shows "weak_zones rnd rows =
           map (\<lambda>(i, n, c, a). (n, rnd (level_of a)))
             (filter (\<lambda>(i, n, c, a). 0 < rnd (level_of a) \<and> rnd (level_of a) < 3) rows)
    \<and> (1 / 20 < m \<and> m < 59 / 20 \<longrightarrow> 0 < rnd m \<and> rnd m < 3)
    \<and> (m < 1 / 20 \<or> 59 / 20 < m \<longrightarrow> \<not> (0 < rnd m \<and> rnd m < 3))
    \<and> rnd 0 = 0 \<and> rnd (29 / 10) = 29 / 10 \<and> rnd 3 = 3"
proof (intro conjI impI)
  show "weak_zones rnd rows =
           map (\<lambda>(i, n, c, a). (n, rnd (level_of a)))
             (filter (\<lambda>(i, n, c, a). 0 < rnd (level_of a) \<and> rnd (level_of a) < 3) rows)"
    by (simp add: weak_zones_def levels_loop_weak)
  show "0 < rnd m" if "1 / 20 < m \<and> m < 59 / 20"
    using nearest_tenth_inside [OF assms, of m] that by simp
  show "rnd m < 3" if "1 / 20 < m \<and> m < 59 / 20"
    using nearest_tenth_inside [OF assms, of m] that by simp
  show "\<not> (0 < rnd m \<and> rnd m < 3)" if "m < 1 / 20 \<or> 59 / 20 < m"
    by (rule nearest_tenth_outside [OF assms that])
  show "rnd 0 = 0" using nearest_tenth_fixed [OF assms, of 0] by simp
  show "rnd (29 / 10) = 29 / 10" using nearest_tenth_fixed [OF assms, of 29] by simp
  show "rnd 3 = 3" using nearest_tenth_fixed [OF assms, of 30] by simp
qed

text \<open>
  C5, witness: the rounding \<open>round_tenth\<close>, the aggregate with the levels 2.9, 0 and 3,
  and the means 2 and 62/21.
\<close>

theorem weak_zones_rounded_witness:
  "nearest_tenth round_tenth
   \<and> weak_zones round_tenth boundary_comp_data = [(comp_db, 29 / 10)]
   \<and> 0 < round_tenth 2 \<and> round_tenth 2 < 3
   \<and> \<not> (0 < round_tenth (62 / 21) \<and> round_tenth (62 / 21) < 3)"
proof -
  have h: "nearest_tenth round_tenth" by (rule nearest_tenth_round_tenth)
  have a: "(1::rat) / 20 < 2 \<and> (2::rat) < 59 / 20" by simp
  have b: "(62::rat) / 21 < 1 / 20 \<or> (59::rat) / 20 < 62 / 21" by simp
  show ?thesis
    using h a b weak_zones_rounded [OF h, of boundary_comp_data 2]
      weak_zones_rounded [OF h, of boundary_comp_data "62 / 21"]
    by (simp add: boundary_comp_data_def level_of_def)
qed
section \<open>Properties of the GoalTracker\<close>









section \<open>Properties of the profile reload\<close>

lemma foldl_insert_competency:
  "entries (foldl insert_competency s items) = entries s"
  "entry_competencies (foldl insert_competency s items) = entry_competencies s"
  "map (\<lambda>c. (c_name c, c_category c)) (competencies (foldl insert_competency s items))
     = map (\<lambda>c. (c_name c, c_category c)) (competencies s) @ items"
  "(self_competencies (foldl insert_competency s items) = [])
     = (self_competencies s = [] \<and> items = [])"
  by (induction items arbitrary: s) (simp_all add: insert_competency_def Let_def)

lemma update_competencies_tables:
  "entries (update_competencies rnd s) = entries s"
  "competencies (update_competencies rnd s) = competencies s"
  "entry_competencies (update_competencies rnd s) = entry_competencies s"
  by (simp_all add: update_competencies_def generate_recommendations_def Let_def
      split: prod.splits)

lemma levels_loop_text:
  "fst (levels_loop rnd rows (t, w)) =
     t @ map (\<lambda>(i, n, c, a). (n, c, rnd (level_of a))) rows"
proof (induction rows arbitrary: t w)
  case Nil
  show ?case by simp
next
  case (Cons row rows)
  obtain i n c a where row: "row = (i, n, c, a)" by (cases row) auto
  show ?case by (simp add: row Let_def Cons.IH)
qed

lemma update_competencies_panel:
  "competencies_text (update_competencies rnd s) =
     (if self_competencies s = [] then LoadFirst
      else Profile (map (\<lambda>(i, n, c, a). (n, c, rnd (level_of a))) (select_comp_data s))
                   (weak_zones rnd (select_comp_data s)))"
proof -
  obtain t w where l: "levels_loop rnd (select_comp_data s) ([], []) = (t, w)"
    by (cases "levels_loop rnd (select_comp_data s) ([], [])") auto
  have "t = map (\<lambda>(i, n, c, a). (n, c, rnd (level_of a))) (select_comp_data s)"
    using levels_loop_text [of rnd "select_comp_data s" "[]" "[]"] l by simp
  moreover have "w = weak_zones rnd (select_comp_data s)"
    using l by (simp add: weak_zones_def)
  ultimately show ?thesis
    by (simp add: update_competencies_def generate_recommendations_def Let_def l)
qed

lemma select_comp_data_no_grades:
  assumes "entry_competencies s = []"
  shows "select_comp_data s =
     sort_key (\<lambda>(cid, name, category, avg). (category, name))
       (map (\<lambda>c. (c_id c, c_name c, c_category c, None)) (competencies s))"
  using assms by (simp add: select_comp_data_def levels_of_def sql_avg_def)

lemma select_comp_data_cong:
  "competencies s' = competencies s \<Longrightarrow> entry_competencies s' = entry_competencies s \<Longrightarrow>
   select_comp_data s' = select_comp_data s"
  by (simp add: select_comp_data_def levels_of_def)

lemma no_grades_levels:
  assumes "entry_competencies s = []"
  shows "length (select_comp_data s) = length (competencies s)"
    and "row \<in> set (select_comp_data s) \<Longrightarrow> snd (snd (snd row)) = None"
  using assms by (auto simp: select_comp_data_no_grades)

lemma delete_cascade:
  assumes "gr_competency ` set (entry_competencies s) \<subseteq> c_id ` set (competencies s)"
  shows "entry_competencies (delete_from_competencies s) = []"
    and "competencies (delete_from_competencies s) = []"
    and "entries (delete_from_competencies s) = entries s"
    and "self_competencies (delete_from_competencies s) = self_competencies s"
  using assms by (auto simp: delete_from_competencies_def Let_def filter_empty_conv)
text \<open>
  C10. Let the combo box hold a specialty of \<open>specialties_data\<close>, let every grade
  reference a competency of the table (the foreign key), and let \<open>round(_, 1)\<close> round to
  the nearest tenth. Then after \<open>load_competencies\<close>: no grade is left; the entries
  are what they were; the competencies are those of the profile; every competency of
  the aggregate has level 0; the weak zones are empty; and the panel shows every level
  as 0 and no weak zone (or the prompt to load a profile when the profile is empty).
\<close>

theorem load_competencies_clears_grades:
  assumes spec: "map_of (specialties_data st) specialty = Some competencies_list"
    and nonempty: "specialty \<noteq> []"
    and fk: "gr_competency ` set (entry_competencies st) \<subseteq> c_id ` set (competencies st)"
    and rnd: "nearest_tenth rnd"
  shows "entry_competencies (load_competencies rnd specialty st) = []
    \<and> entries (load_competencies rnd specialty st) = entries st
    \<and> map (\<lambda>c. (c_name c, c_category c)) (competencies (load_competencies rnd specialty st))
        = competencies_list
    \<and> map (\<lambda>(i, n, c, a). level_of a) (select_comp_data (load_competencies rnd specialty st))
        = replicate (length competencies_list) 0
    \<and> weak_zones rnd (select_comp_data (load_competencies rnd specialty st)) = []
    \<and> competencies_text (load_competencies rnd specialty st)
        = (if competencies_list = [] then LoadFirst
           else Profile (map (\<lambda>(i, n, c, a). (n, c, 0))
                          (select_comp_data (load_competencies rnd specialty st))) [])"
proof -
  define s1 where "s1 = st\<lparr>current_specialty := Some specialty, self_competencies := []\<rparr>"
  define s2 where "s2 = delete_from_competencies s1"
  define s3 where "s3 = foldl insert_competency s2 competencies_list"
  define s4 where "s4 = update_competencies rnd s3"
  let ?st' = "load_competencies rnd specialty st"
  have st': "?st' = s4\<lparr>dialogs := dialogs s4 @
                      [ShowInfo title_success (text_loaded @ specialty)]\<rparr>"
    using spec nonempty
    by (simp add: load_competencies_def Let_def s1_def s2_def s3_def s4_def)
  have fk1: "gr_competency ` set (entry_competencies s1) \<subseteq> c_id ` set (competencies s1)"
    using fk by (simp add: s1_def)
  note del = delete_cascade [OF fk1, folded s2_def]
  note ins = foldl_insert_competency [of s2 competencies_list, folded s3_def]
  have ec3: "entry_competencies s3 = []" using ins(2) del(1) by simp
  have e3: "entries s3 = entries st" using ins(1) del(3) by (simp add: s1_def)
  have c3: "map (\<lambda>c. (c_name c, c_category c)) (competencies s3) = competencies_list"
    using ins(3) del(2) by simp
  have sc3: "(self_competencies s3 = []) = (competencies_list = [])"
    using ins(4) del(4) by (simp add: s1_def)
  have tables: "entries ?st' = entries s3" "competencies ?st' = competencies s3"
    "entry_competencies ?st' = entry_competencies s3"
    by (simp_all add: st' s4_def update_competencies_tables)
  have data: "select_comp_data ?st' = select_comp_data s3"
    by (rule select_comp_data_cong) (simp_all add: tables)
  have len: "length (select_comp_data s3) = length competencies_list"
    using no_grades_levels(1) [OF ec3] c3 by (metis length_map)
  have none: "snd (snd (snd row)) = None" if "row \<in> set (select_comp_data s3)" for row
    using no_grades_levels(2) [OF ec3 that] .
  have lev0: "level_of a = 0" if "(i, n, c, a) \<in> set (select_comp_data s3)" for i n c a
    using none [OF that] by (simp add: level_of_def)
  have zero: "rnd 0 = 0"
    using nearest_tenth_fixed [OF rnd, of 0] by simp
  have levels: "map (\<lambda>(i, n, c, a). level_of a) (select_comp_data s3)
        = replicate (length competencies_list) 0"
  proof -
    have "map (\<lambda>(i, n, c, a). level_of a) (select_comp_data s3)
          = map (\<lambda>row. 0) (select_comp_data s3)"
      by (rule map_cong) (auto dest: lev0)
    then show ?thesis by (simp add: map_replicate_const len)
  qed
  have weak: "weak_zones rnd (select_comp_data s3) = []"
    by (auto simp: weak_zones_def levels_loop_weak filter_empty_conv zero dest: lev0)
  have lines: "map (\<lambda>(i, n, c, a). (n, c, rnd (level_of a))) (select_comp_data s3)
        = map (\<lambda>(i, n, c, a). (n, c, 0)) (select_comp_data s3)"
    by (rule map_cong) (auto simp: zero dest: lev0)
  have panel: "competencies_text ?st'
        = (if competencies_list = [] then LoadFirst
           else Profile (map (\<lambda>(i, n, c, a). (n, c, 0)) (select_comp_data s3)) [])"
    by (simp add: st' s4_def update_competencies_panel sc3 weak lines)
  show ?thesis
    using ec3 e3 c3 levels weak panel by (simp add: tables data)
qed
lemma reload_app_before:
  "select_comp_data reload_app = [(1, comp_db, cat_technical, Some 2)]"
  by (simp add: select_comp_data_def reload_app_def fresh_app_def levels_of_def sql_avg_def)

text \<open>
  C10, witness: reloading in \<open>reload_app\<close> the specialty that is loaded. Before, the
  competency graded 2 is a weak zone; after, no grade is left and there is none.
\<close>

theorem load_competencies_clears_grades_witness:
  "map_of (specialties_data reload_app) specialty_is
     = Some [(comp_programming, cat_technical), (comp_db, cat_technical)]
   \<and> specialty_is \<noteq> []
   \<and> gr_competency ` set (entry_competencies reload_app) \<subseteq> c_id ` set (competencies reload_app)
   \<and> nearest_tenth round_tenth
   \<and> weak_zones round_tenth (select_comp_data reload_app) = [(comp_db, 2)]
   \<and> entry_competencies (load_competencies round_tenth specialty_is reload_app) = []
   \<and> entries (load_competencies round_tenth specialty_is reload_app) = entries reload_app
   \<and> map (\<lambda>c. (c_name c, c_category c))
         (competencies (load_competencies round_tenth specialty_is reload_app))
       = [(comp_programming, cat_technical), (comp_db, cat_technical)]
   \<and> map (\<lambda>(i, n, c, a). level_of a)
         (select_comp_data (load_competencies round_tenth specialty_is reload_app)) = [0, 0]
   \<and> weak_zones round_tenth
         (select_comp_data (load_competencies round_tenth specialty_is reload_app)) = []"
proof -
  have h1: "map_of (specialties_data reload_app) specialty_is
     = Some [(comp_programming, cat_technical), (comp_db, cat_technical)]"
    by (simp add: reload_app_def fresh_app_def)
  have h2: "specialty_is \<noteq> []"
    by (simp add: specialty_is_def)
  have h3: "gr_competency ` set (entry_competencies reload_app)
              \<subseteq> c_id ` set (competencies reload_app)"
    by (simp add: reload_app_def fresh_app_def)
  have h4: "nearest_tenth round_tenth"
    by (rule nearest_tenth_round_tenth)
  have before: "weak_zones round_tenth (select_comp_data reload_app) = [(comp_db, 2)]"
    by (simp add: reload_app_before weak_zones_def level_of_def round_tenth_values)
  show ?thesis
    using h1 h2 h3 h4 before load_competencies_clears_grades [OF h1 h2 h3 h4]
    by (simp add: numeral_2_eq_2)
qed

end
